theory Spec2Isabelle
  imports Complex_Main "HOL-Library.Sublist"
begin

section \<open>Strings as the script sees them\<close>

text \<open>
  A JavaScript string is modelled as a \<^typ>\<open>string\<close>, one \<^typ>\<open>char\<close> per
  character; the characters the model can hold are those below U+0100. The counts and
  quantities that the templates interpolate are integers and print in decimal, as
  \<^verbatim>\<open>String(n)\<close> does.
\<close>

definition nl :: string where
  "nl = [CHR 0x0A]"

definition digit :: "nat \<Rightarrow> char" where
  "digit n = ''0123456789'' ! n"

fun show_nat :: "nat \<Rightarrow> string" where
  "show_nat n = (if n < 10 then [digit n] else show_nat (n div 10) @ [digit (n mod 10)])"

declare show_nat.simps [simp del]

definition show_int :: "int \<Rightarrow> string" where
  "show_int i = (if i < 0 then CHR ''-'' # show_nat (nat (- i)) else show_nat (nat i))"

text \<open>
  White space as \<^verbatim>\<open>String.prototype.trim\<close> and the regular expression class
  \<^verbatim>\<open>\s\<close> see it: TAB, LF, VT, FF, CR, SPACE and NBSP (the members below U+0100).
\<close>

definition is_space :: "char \<Rightarrow> bool" where
  "is_space c = (c \<in> set [CHR 0x09, CHR 0x0A, CHR 0x0B, CHR 0x0C, CHR 0x0D, CHR 0x20, CHR 0xA0])"

definition trim :: "string \<Rightarrow> string" where
  "trim s = rev (dropWhile is_space (rev (dropWhile is_space s)))"

text \<open>
  \<^verbatim>\<open>s.split(/\s+/)\<close>: the pieces between maximal runs of white space. A run at the
  start or at the end leaves an empty piece there, and the empty string splits into one
  empty piece.
\<close>

function split_ws :: "string \<Rightarrow> string list" where
  "split_ws s =
     (let w = takeWhile (\<lambda>c. \<not> is_space c) s;
          r = dropWhile (\<lambda>c. \<not> is_space c) s
      in if r = [] then [w] else w # split_ws (dropWhile is_space r))"
  by pat_completeness auto
termination
proof (relation "measure length")
  show "wf (measure length)" by simp
next
  fix s :: string and w r
  assume r: "r = dropWhile (\<lambda>c. \<not> is_space c) s" and ne: "r \<noteq> []"
  from ne obtain c cs where rc: "r = c # cs" by (cases r) auto
  have "is_space c" using r rc by (metis hd_dropWhile list.sel(1) ne)
  then have "length (dropWhile is_space r) \<le> length cs"
    by (simp add: rc length_dropWhile_le)
  moreover have "length r \<le> length s" by (simp add: r length_dropWhile_le)
  ultimately show "(dropWhile is_space r, s) \<in> measure length" by (simp add: rc)
qed

declare split_ws.simps [simp del]

text \<open>
  \<^verbatim>\<open>toUpperCase\<close> maps a string character by character, whatever stands next to it. Of
  the characters below U+0100 the letters a to z and U+00E0 to U+00FE, the division sign
  U+00F7 apart, move down by 32; the sharp s U+00DF becomes the two letters \<^verbatim>\<open>SS\<close>; every
  other one stays, except the micro sign U+00B5 and the y with diaeresis U+00FF, whose
  upper-case forms U+039C and U+0178 the model's alphabet does not have: \<open>up\<close> gives
  what is written for these two.
\<close>

definition upper_char :: "(char \<Rightarrow> string) \<Rightarrow> char \<Rightarrow> string" where
  "upper_char up c =
     (let n = (of_char c :: nat) in
      if (97 \<le> n \<and> n \<le> 122) \<or> (224 \<le> n \<and> n \<le> 254 \<and> n \<noteq> 247) then [char_of (n - 32)]
      else if n = 223 then ''SS''
      else if n = 181 \<or> n = 255 then up c
      else [c])"

definition toUpperCase :: "(char \<Rightarrow> string) \<Rightarrow> string \<Rightarrow> string" where
  "toUpperCase up s = concat (map (upper_char up) s)"

definition substring :: "nat \<Rightarrow> nat \<Rightarrow> string \<Rightarrow> string" where
  "substring i j s = take (j - i) (drop i s)"

definition charAt :: "string \<Rightarrow> nat \<Rightarrow> string" where
  "charAt s i = (if i < length s then [s ! i] else [])"

section \<open>main.js: initials and escaping\<close>

text \<open>
  \<^verbatim>\<open>generateInitials(name)\<close>. The test \<^verbatim>\<open>!name\<close> holds of the empty string. The list
  of words is never empty, so \<^verbatim>\<open>words[0]\<close> exists, and \<^verbatim>\<open>words[1]\<close> exists in the
  branch that reads it.
\<close>

definition generateInitials :: "(char \<Rightarrow> string) \<Rightarrow> string \<Rightarrow> string" where
  "generateInitials up name =
     (if name = [] then ''ST''
      else
        let words = split_ws (trim name) in
        if length words = 1 then toUpperCase up (substring 0 2 name)
        else toUpperCase up (charAt (words ! 0) 0 @ charAt (words ! 1) 0))"

text \<open>
  \<^verbatim>\<open>escapeHtml(text)\<close> stores the text in a fresh element's \<^verbatim>\<open>textContent\<close> and reads
  the element's \<^verbatim>\<open>innerHTML\<close> back. The browser serialises a text node by replacing
  \<^verbatim>\<open>&\<close>, NBSP, \<^verbatim>\<open><\<close> and \<^verbatim>\<open>>\<close> by character references and nothing else; quote
  characters are replaced in attribute values only, and this is a text node.
\<close>

definition escape_char :: "char \<Rightarrow> string" where
  "escape_char c =
     (if c = CHR ''&'' then ''&amp;''
      else if c = CHR 0xA0 then ''&nbsp;''
      else if c = CHR ''<'' then ''&lt;''
      else if c = CHR ''>'' then ''&gt;''
      else [c])"

definition escapeHtml :: "string \<Rightarrow> string" where
  "escapeHtml text = concat (map escape_char text)"

section \<open>The data model\<close>

text \<open>
  The objects the store API returns, with the fields the script reads. Field names carry a
  prefix for their object (\<open>st_name\<close> is the store's \<^verbatim>\<open>name\<close>, \<open>pr_name\<close> the
  product's). An optional text field that is absent, \<^verbatim>\<open>null\<close> or empty is the empty
  string: the script only ever tests such a field for truthiness, and the three are falsy
  alike. An absent list is the empty list for the same reason.
\<close>

record social_link =
  link_platform :: string
  link_url :: string
  link_enabled :: bool

record configuration =
  cfg_currency :: string
  cfg_delivery_enabled :: bool
  cfg_pickup_enabled :: bool

record store =
  st_name :: string
  st_description :: string
  st_logo_url :: string
  st_phone :: string
  st_email :: string
  st_address :: string
  st_social_links :: "social_link list"
  st_configuration :: "configuration option"

text \<open>
  \<^verbatim>\<open>stock_quantity\<close> is a number, \<^verbatim>\<open>null\<close> (unlimited stock) or missing from the
  object (\<^verbatim>\<open>undefined\<close>).
\<close>

datatype stock = Undefined | Null | Quantity int

record product =
  pr_id :: string
  pr_name :: string
  pr_description :: string
  pr_price :: real
  pr_category :: string
  pr_image_url :: string
  pr_stock_quantity :: stock
  pr_is_available :: bool
  pr_tags :: "string list"

record category =
  cat_name :: string
  cat_product_count :: int

record promotion =
  promo_name :: string
  promo_description :: string
  promo_code :: string

record cart_item =
  item_product_id :: string
  item_product_name :: string
  item_quantity :: int
  item_unit_price :: real
  item_total_price :: real

record cart =
  items :: "cart_item list"
  subtotal :: real
  tax :: real
  total :: real

definition empty_cart :: cart where
  "empty_cart = \<lparr>items = [], subtotal = 0, tax = 0, total = 0\<rparr>"

section \<open>main.js: the rendering functions\<close>

text \<open>
  What a function throws, or a promise rejects with: an object made by
  \<^verbatim>\<open>new Error(message)\<close>, or one of the errors the engine raises itself.
\<close>

datatype error = Error string | TypeError | RangeError

text \<open>
  Each function returns the markup its template literal builds, white space included, or
  \<open>Inl\<close> the error thrown while building it. Of all the expressions in the templates
  only \<^verbatim>\<open>formatPrice\<close> and a property read on \<^verbatim>\<open>null\<close> can throw; an expression is
  evaluated when the template reaches it, from left to right.

  \<^verbatim>\<open>formatPrice(price, currency)\<close> constructs an \<^verbatim>\<open>Intl.NumberFormat\<close> with that
  currency. The constructor throws a RangeError unless the code is well formed, which is
  three ASCII letters in either case; for a well-formed code \<open>fmt price currency\<close> is the
  text that \<^verbatim>\<open>format(price)\<close> gives. \<open>clock i\<close> is what \<^verbatim>\<open>Date.now()\<close> reads when the
  \<open>i\<close>-th product card of a pass is drawn.
\<close>

type_synonym formatter = "real \<Rightarrow> string \<Rightarrow> string"

definition is_letter :: "char \<Rightarrow> bool" where
  "is_letter c = (let n = (of_char c :: nat) in (65 \<le> n \<and> n \<le> 90) \<or> (97 \<le> n \<and> n \<le> 122))"

definition well_formed_currency :: "string \<Rightarrow> bool" where
  "well_formed_currency currency = (length currency = 3 \<and> list_all is_letter currency)"

definition formatPrice :: "formatter \<Rightarrow> real \<Rightarrow> string \<Rightarrow> error + string" where
  "formatPrice fmt price currency =
     (if well_formed_currency currency then Inr (fmt price currency) else Inl RangeError)"

text \<open>
  \<^verbatim>\<open>xs.map(f)\<close> for an \<open>f\<close> that may throw: the elements are visited in order and the
  first throw ends the pass.
\<close>

fun array_map :: "('a \<Rightarrow> error + 'b) \<Rightarrow> 'a list \<Rightarrow> error + 'b list" where
  "array_map f [] = Inr []"
| "array_map f (x # xs) =
     (case f x of
        Inl e \<Rightarrow> Inl e
      | Inr y \<Rightarrow> (case array_map f xs of Inl e \<Rightarrow> Inl e | Inr ys \<Rightarrow> Inr (y # ys)))"

definition join :: "string \<Rightarrow> string list \<Rightarrow> string" where
  "join sep xs = (case xs of [] \<Rightarrow> [] | y # ys \<Rightarrow> y @ concat (map (\<lambda>x. sep @ x) ys))"

text \<open>
  \<^verbatim>\<open>storeData.configuration?.currency || 'USD'\<close>, and the same read through
  \<^verbatim>\<open>storeData?.\<close> where the store itself may still be \<^verbatim>\<open>null\<close>.
\<close>

definition currency_of :: "store \<Rightarrow> string" where
  "currency_of storeData =
     (case st_configuration storeData of
        None \<Rightarrow> ''USD''
      | Some c \<Rightarrow> if cfg_currency c \<noteq> [] then cfg_currency c else ''USD'')"

definition currency_opt :: "store option \<Rightarrow> string" where
  "currency_opt storeData = (case storeData of None \<Rightarrow> ''USD'' | Some s \<Rightarrow> currency_of s)"



definition renderSocialLink :: "social_link \<Rightarrow> string" where
  \<open>renderSocialLink link =
      ''<a href="'' @ escapeHtml (link_url link) @
      ''" target="_blank" rel="noopener noreferrer" class="social-link">'' @
      escapeHtml (link_platform link) @ ''</a>''\<close>

definition renderHeader :: "(char \<Rightarrow> string) \<Rightarrow> store \<Rightarrow> string" where
  \<open>renderHeader up storeData =
     (let storeName = (if st_name storeData \<noteq> [] then st_name storeData else ''Store'');
          initials = generateInitials up storeName;
          logo =
            (if st_logo_url storeData \<noteq> [] then
               ''<img src="'' @ escapeHtml (st_logo_url storeData) @ ''" alt="'' @
               escapeHtml storeName @
               ''" class="logo" onerror="this.style.display='none'; const initialsEl = this.nextElementSibling; if(initialsEl) initialsEl.style.display='flex';">''
             else []);
          initialsLogo =
            ''<div class="logo-initials" style="'' @
            (if st_logo_url storeData \<noteq> [] then ''display: none;'' else []) @ ''">'' @
            escapeHtml initials @ ''</div>'';
          socialLinks =
            (if st_social_links storeData \<noteq> [] then
               ''<div class="social-links">'' @ nl @ ''        '' @
               concat (map renderSocialLink (filter link_enabled (st_social_links storeData))) @
               nl @ ''       </div>''
             else [])
      in
        nl @ ''    <header>'' @ nl @ ''      '' @ logo @ nl @ ''      '' @ initialsLogo @ nl @
        ''      <h1>'' @ escapeHtml storeName @ ''</h1>'' @ nl @ ''      '' @
        (if st_description storeData \<noteq> [] then
           ''<p class="description">'' @ escapeHtml (st_description storeData) @ ''</p>''
         else []) @
        nl @ ''      '' @ socialLinks @ nl @ ''    </header>'' @ nl @ ''  '')\<close>

definition renderCategoryButton :: "string \<Rightarrow> category \<Rightarrow> string" where
  \<open>renderCategoryButton currentCategory cat =
      nl @ ''          <button class="category-btn '' @
      (if currentCategory = cat_name cat then ''active'' else []) @
      ''" data-category="'' @ escapeHtml (cat_name cat) @ ''">'' @ nl @ ''            '' @
      escapeHtml (cat_name cat) @ '' ('' @
      show_int (if cat_product_count cat \<noteq> 0 then cat_product_count cat else 0) @ '')'' @ nl @
      ''          </button>'' @ nl @ ''        ''\<close>

definition renderNavigation :: "category list \<Rightarrow> string \<Rightarrow> string" where
  \<open>renderNavigation categories currentCategory =
     (if categories = [] then []
      else
        nl @ ''    <nav>'' @ nl @ ''      <div class="category-buttons">'' @ nl @
        ''        <button class="category-btn '' @
        (if currentCategory = ''all'' then ''active'' else []) @
        ''" data-category="all">'' @ nl @ ''          All'' @ nl @ ''        </button>'' @ nl @
        ''        '' @ concat (map (renderCategoryButton currentCategory) categories) @ nl @
        ''      </div>'' @ nl @ ''    </nav>'' @ nl @ ''  '')\<close>

definition renderPromotion :: "promotion \<Rightarrow> string" where
  \<open>renderPromotion promo =
      nl @ ''        <div class="promotion-item">'' @ nl @ ''          <strong>'' @
      escapeHtml (promo_name promo) @ ''</strong>'' @ nl @ ''          <span>'' @
      escapeHtml (if promo_description promo \<noteq> [] then promo_description promo else []) @
      ''</span>'' @ nl @ ''          '' @
      (if promo_code promo \<noteq> [] then
         ''<br><small>Use code: <strong>'' @ escapeHtml (promo_code promo) @ ''</strong></small>''
       else []) @
      nl @ ''        </div>'' @ nl @ ''      ''\<close>

definition renderPromotions :: "promotion list \<Rightarrow> string" where
  \<open>renderPromotions promotions =
     (if promotions = [] then []
      else
        nl @ ''    <div class="promotions">'' @ nl @
        ''      <h3 style="margin-bottom: 0.5rem;">Special Offers</h3>'' @ nl @ ''      '' @
        concat (map renderPromotion promotions) @ nl @ ''    </div>'' @ nl @ ''  '')\<close>

text \<open>
  \<^verbatim>\<open>renderProduct(product)\<close>. \<open>availability\<close> is the attribute the button carries: empty
  when the product can be ordered, \<^verbatim>\<open>disabled\<close> otherwise; the label tests the same string.
  The comparison \<^verbatim>\<open>stock_quantity > 0\<close> is false of \<^verbatim>\<open>undefined\<close>. The price is
  computed before the template is built: \<^verbatim>\<open>storeData.configuration\<close> throws a TypeError
  while \<^verbatim>\<open>storeData\<close> is \<^verbatim>\<open>null\<close>, and \<^verbatim>\<open>formatPrice\<close> may throw.
\<close>

definition placeholderImage :: string where
  \<open>placeholderImage =
      ''data:image/svg+xml,%3Csvg xmlns='http://www.w3.org/2000/svg' width='300' height='200'%3E%3Crect width='300' height='200' fill='%23f9fafb'/%3E%3Ctext x='50%25' y='50%25' dominant-baseline='middle' text-anchor='middle' font-family='Arial, sans-serif' font-size='14' fill='%236b7280'%3ENo Image%3C/text%3E%3C/svg%3E''\<close>

definition escape_quotes :: "string \<Rightarrow> string" where
  "escape_quotes s = concat (map (\<lambda>c. if c = CHR 0x27 then [CHR 0x5C, CHR 0x27] else [c]) s)"

definition availability :: "product \<Rightarrow> string" where
  "availability product =
     (if pr_is_available product \<and>
         (pr_stock_quantity product = Null \<or>
          (case pr_stock_quantity product of Quantity n \<Rightarrow> n > 0 | _ \<Rightarrow> False))
      then [] else ''disabled'')"

definition renderTag :: "string \<Rightarrow> string" where
  \<open>renderTag tag = ''<span class="tag">'' @ escapeHtml tag @ ''</span>''\<close>

definition renderProduct ::
  "formatter \<Rightarrow> nat \<Rightarrow> store option \<Rightarrow> product \<Rightarrow> error + string" where
  \<open>renderProduct fmt now storeData product =
     (let imageId = ''product-img-'' @ pr_id product @ ''-'' @ show_nat now;
          image =
            (if pr_image_url product \<noteq> [] then
               ''<img id="'' @ imageId @ ''" src="'' @ escapeHtml (pr_image_url product) @
               ''" alt="'' @ escapeHtml (pr_name product) @
               ''" class="product-image" loading="lazy" decoding="async" onerror="if(!this.dataset.fallbackSet){this.dataset.fallbackSet='true';this.onerror=null;this.src='' @
               [CHR 0x27] @ escape_quotes placeholderImage @ [CHR 0x27] @ '';}">''
             else
               ''<img src="'' @ placeholderImage @
               ''" alt="No image available" class="product-image">'');
          tags =
            (if pr_tags product \<noteq> [] then
               ''<div class="product-tags">'' @ nl @ ''        '' @
               concat (map renderTag (pr_tags product)) @ nl @ ''       </div>''
             else [])
      in
        case (case storeData of
                None \<Rightarrow> Inl TypeError
              | Some st \<Rightarrow> formatPrice fmt (pr_price product) (currency_of st)) of
          Inl e \<Rightarrow> Inl e
        | Inr price \<Rightarrow>
        Inr (
        nl @ ''    <div class="product">'' @ nl @ ''      '' @ image @ nl @
        ''      <div class="product-info">'' @ nl @ ''        <h3 class="product-name">'' @
        escapeHtml (pr_name product) @ ''</h3>'' @ nl @ ''        '' @
        (if pr_description product \<noteq> [] then
           ''<p class="product-description">'' @ escapeHtml (pr_description product) @ ''</p>''
         else []) @
        nl @ ''        '' @ tags @ nl @
        ''        <div class="product-price">'' @ price @ ''</div>'' @ nl @ ''        <button '' @
        nl @ ''          class="add-to-cart-btn" '' @ nl @ ''          '' @ availability product @ nl @
        ''          onclick="addToCart('' @ [CHR 0x27] @ pr_id product @ [CHR 0x27] @ '')"'' @ nl @
        ''          data-product-id="'' @ pr_id product @ ''"'' @ nl @ ''        >'' @ nl @
        ''          '' @
        (if availability product \<noteq> [] then ''Out of Stock'' else ''Add to Cart'') @ nl @
        ''        </button>'' @ nl @ ''      </div>'' @ nl @ ''    </div>'' @ nl @ ''  ''))\<close>

text \<open>
  \<^verbatim>\<open>renderProducts()\<close> reads the globals \<^verbatim>\<open>products\<close>, \<^verbatim>\<open>currentCategory\<close> and
  \<^verbatim>\<open>storeData\<close>; they are arguments here. \<^verbatim>\<open>===\<close> on two strings is equality of
  their characters.
\<close>

definition filteredProducts :: "product list \<Rightarrow> string \<Rightarrow> product list" where
  "filteredProducts products currentCategory =
     (if currentCategory = ''all'' then products
      else filter (\<lambda>p. pr_category p = currentCategory) products)"

definition renderProducts ::
  "formatter \<Rightarrow> (nat \<Rightarrow> nat) \<Rightarrow> store option \<Rightarrow> product list \<Rightarrow> string \<Rightarrow> error + string" where
  \<open>renderProducts fmt clock storeData products currentCategory =
     (if filteredProducts products currentCategory = [] then
        Inr (
        nl @ ''      <div class="text-center" style="padding: 3rem;">'' @ nl @
        ''        <h2>No products found</h2>'' @ nl @ ''        <p>'' @
        (if currentCategory = ''all'' then ''This store has no products yet.''
         else ''No products in the "'' @ currentCategory @ ''" category.'') @
        ''</p>'' @ nl @ ''      </div>'' @ nl @ ''    '')
      else
        case array_map (\<lambda>(i, product). renderProduct fmt (clock i) storeData product)
               (enumerate 0 (filteredProducts products currentCategory)) of
          Inl e \<Rightarrow> Inl e
        | Inr cards \<Rightarrow>
        Inr (
        nl @ ''    <div class="products">'' @ nl @ ''      '' @ concat cards @
        nl @ ''    </div>'' @ nl @ ''  ''))\<close>


definition renderCartItem :: "formatter \<Rightarrow> store option \<Rightarrow> cart_item \<Rightarrow> error + string" where
  \<open>renderCartItem fmt storeData item =
     (case formatPrice fmt (item_unit_price item) (currency_opt storeData) of
        Inl e \<Rightarrow> Inl e
      | Inr price \<Rightarrow>
      Inr (
      nl @ ''    <div class="cart-item">'' @ nl @ ''      <div class="cart-item-info">'' @ nl @
      ''        <div class="cart-item-name">'' @ escapeHtml (item_product_name item) @ ''</div>'' @ nl @
      ''        <div class="cart-item-price">'' @ price @ '' '' @
      [CHR 0xD7] @ '' '' @ show_int (item_quantity item) @ ''</div>'' @ nl @ ''      </div>'' @ nl @
      ''      <div class="cart-item-quantity">'' @ nl @
      ''        <button class="quantity-btn" onclick="updateCartQuantity('' @ [CHR 0x27] @
      item_product_id item @ [CHR 0x27] @ '', '' @ show_int (item_quantity item - 1) @
      '')">-</button>'' @ nl @
      ''        <span>'' @ show_int (item_quantity item) @ ''</span>'' @ nl @
      ''        <button class="quantity-btn" onclick="updateCartQuantity('' @ [CHR 0x27] @
      item_product_id item @ [CHR 0x27] @ '', '' @ show_int (item_quantity item + 1) @
      '')">+</button>'' @ nl @
      ''      </div>'' @ nl @ ''    </div>'' @ nl @ ''  ''))\<close>

definition renderCartItems :: "formatter \<Rightarrow> store option \<Rightarrow> cart \<Rightarrow> error + string" where
  \<open>renderCartItems fmt storeData cart =
     (if length (items cart) = 0 then
        Inr ''<div class="text-center" style="padding: 2rem; color: var(--text-light);">Your cart is empty</div>''
      else
        case array_map (renderCartItem fmt storeData) (items cart) of
          Inl e \<Rightarrow> Inl e
        | Inr rows \<Rightarrow> Inr (concat rows))\<close>

definition cartCount :: "cart \<Rightarrow> int" where
  "cartCount cart = foldl (\<lambda>sum item. sum + item_quantity item) 0 (items cart)"



section \<open>main.js: the session and its handlers\<close>

text \<open>
  The script's global variables, with logs of what a handler does to the outside: the
  calls it makes on the API client, the \<^verbatim>\<open>alert\<close> boxes it opens and the lines it
  writes with \<^verbatim>\<open>console.error\<close>.

  The API client is injected by the host; the model holds what each of its operations
  settles to, \<open>Inl\<close> for a rejected promise. \<^verbatim>\<open>api\<close> is \<^verbatim>\<open>null\<close> until
  \<^verbatim>\<open>initTheme\<close> has stored a client.
\<close>

datatype api_call =
  GetStore | GetProducts | GetCategories | GetPromotions | AddToCart string int | Checkout

record api_client =
  api_getStore :: "error + store"
  api_getProducts :: "error + product list"
  api_getCategories :: "error + category list"
  api_getPromotions :: "error + promotion list"
  api_addToCart :: "string \<Rightarrow> int \<Rightarrow> error + cart"

record session =
  storeData :: "store option"
  products :: "product list"
  categories :: "category list"
  promotions :: "promotion list"
  cart :: cart
  currentCategory :: string
  api :: "api_client option"
  calls :: "api_call list"
  alerts :: "string list"
  console :: "(string \<times> error option) list"

definition initial_session :: session where
  "initial_session =
     \<lparr>storeData = None, products = [], categories = [], promotions = [], cart = empty_cart,
      currentCategory = ''all'', api = None, calls = [], alerts = [], console = []\<rparr>"








text \<open>
  The listener of a category button. \<open>category\<close> is the button's
  \<^verbatim>\<open>dataset.category\<close>, the value of its \<^verbatim>\<open>data-category\<close> attribute as the browser
  parsed it out of the markup of \<^verbatim>\<open>renderNavigation\<close>; \<open>main\<close> is the \<^verbatim>\<open>innerHTML\<close> of
  the \<^verbatim>\<open>main\<close> element, \<open>None\<close> when the document has none. The listener stores the
  value in \<^verbatim>\<open>currentCategory\<close> and draws \<^verbatim>\<open>main\<close> again. Nothing catches a throw of
  the template: it leaves \<^verbatim>\<open>main\<close> as it was, and is the third component.
\<close>

definition category_click ::
  "formatter \<Rightarrow> (nat \<Rightarrow> nat) \<Rightarrow> string \<Rightarrow> session \<times> string option \<Rightarrow>
   session \<times> string option \<times> error option" where
  "category_click fmt clock category sm =
     (case sm of (s, main) \<Rightarrow>
        let s1 = s\<lparr>currentCategory := category\<rparr> in
        (case main of
           None \<Rightarrow> (s1, None, None)
         | Some old \<Rightarrow>
             (case renderProducts fmt clock (storeData s1) (products s1) (currentCategory s1) of
                Inl e \<Rightarrow> (s1, Some old, Some e)
              | Inr productsHtml \<Rightarrow>
                  (s1,
                   Some (nl @ ''          '' @ renderPromotions (promotions s1) @ nl @
                         ''          '' @ productsHtml @ nl @ ''        ''),
                   None))))"

text \<open>
  The elements the cart handlers look up, each as the document holds it at that moment:
  \<open>None\<close> where the selector finds nothing. \<open>product_button id\<close> is what
  \<^verbatim>\<open>document.querySelector\<close> gives for the selector built from \<open>id\<close>: the element with
  \<^verbatim>\<open>data-product-id\<close> equal to \<open>id\<close>, or \<open>Inl\<close> the SyntaxError it throws when \<open>id\<close>
  makes the selector malformed; \<open>cart_items_el\<close> is the \<^verbatim>\<open>innerHTML\<close> of
  \<^verbatim>\<open>#cart-items\<close>; \<open>cart_el\<close> says whether \<^verbatim>\<open>.cart\<close> exists; \<open>cart_count_el\<close> and
  \<open>total_el\<close> are the text of \<^verbatim>\<open>.cart-count\<close> and of the total; \<open>checkout_btn_el\<close> is
  the \<^verbatim>\<open>disabled\<close> flag of \<^verbatim>\<open>.checkout-btn\<close>; \<open>modals\<close> are the overlays appended to
  the body. A handler runs from its call to its end with no other handler in between.

  \<^verbatim>\<open>updateCartDisplay()\<close> may throw where it formats a price; it gives the document as
  it has left it, and the error if it threw. The cart panel it looks up first is not used.
\<close>

record button =
  btn_disabled :: bool
  btn_text :: string

record dom =
  product_button :: "string \<Rightarrow> error + button option"
  cart_items_el :: "string option"
  cart_el :: bool
  cart_count_el :: "string option"
  total_el :: "string option"
  checkout_btn_el :: "bool option"
  modals :: "string list"

definition empty_dom :: dom where
  "empty_dom =
     \<lparr>product_button = (\<lambda>_. Inr None), cart_items_el = None, cart_el = False, cart_count_el = None,
      total_el = None, checkout_btn_el = None, modals = []\<rparr>"

definition update_checkout_btn :: "cart \<Rightarrow> dom \<Rightarrow> dom" where
  "update_checkout_btn c d =
     (case checkout_btn_el d of
        None \<Rightarrow> d
      | Some _ \<Rightarrow> d\<lparr>checkout_btn_el := Some (length (items c) = 0)\<rparr>)"

definition update_cart_count :: "cart \<Rightarrow> dom \<Rightarrow> dom" where
  "update_cart_count c d =
     (let n = cartCount c in
      if n > 0 then
        (case cart_count_el d of
           None \<Rightarrow> if cart_el d then d\<lparr>cart_count_el := Some (show_int n)\<rparr> else d
         | Some _ \<Rightarrow> d\<lparr>cart_count_el := Some (show_int n)\<rparr>)
      else
        (case cart_count_el d of
           None \<Rightarrow> d
         | Some _ \<Rightarrow> d\<lparr>cart_count_el := None\<rparr>))"

definition updateCartDisplay ::
  "formatter \<Rightarrow> store option \<Rightarrow> cart \<Rightarrow> dom \<Rightarrow> dom \<times> error option" where
  "updateCartDisplay fmt sd c d =
     (case (case cart_items_el d of
              None \<Rightarrow> Inr d
            | Some _ \<Rightarrow>
                (case renderCartItems fmt sd c of
                   Inl e \<Rightarrow> Inl e
                 | Inr html \<Rightarrow> Inr (d\<lparr>cart_items_el := Some html\<rparr>))) of
        Inl e \<Rightarrow> (d, Some e)
      | Inr d1 \<Rightarrow>
          let d2 = update_cart_count c d1 in
          (case total_el d2 of
             None \<Rightarrow> (update_checkout_btn c d2, None)
           | Some _ \<Rightarrow>
               (case formatPrice fmt (total c) (currency_opt sd) of
                  Inl e \<Rightarrow> (d2, Some e)
                | Inr totalPrice \<Rightarrow>
                    (update_checkout_btn c (d2\<lparr>total_el := Some totalPrice\<rparr>), None))))"

definition set_button :: "string \<Rightarrow> bool \<Rightarrow> string \<Rightarrow> dom \<Rightarrow> dom" where
  "set_button productId dis txt d =
     (case product_button d productId of
        Inr (Some b) \<Rightarrow>
          d\<lparr>product_button :=
              (product_button d)
                (productId := Inr (Some (b\<lparr>btn_disabled := dis, btn_text := txt\<rparr>)))\<rparr>
      | _ \<Rightarrow> d)"

text \<open>
  \<^verbatim>\<open>addToCart(productId)\<close>. The request is made with quantity 1. On success the cart
  variable takes the returned cart; the \<^verbatim>\<open>catch\<close> clause assigns nothing to it. When the
  first \<^verbatim>\<open>querySelector\<close> throws, no request is made: the \<^verbatim>\<open>catch\<close> clause logs and
  alerts, and its own \<^verbatim>\<open>querySelector\<close> throws again, out of the handler. A throw of
  \<^verbatim>\<open>updateCartDisplay\<close> ends in the same \<^verbatim>\<open>catch\<close> clause, with the cart already
  replaced.
\<close>

definition addToCart :: "formatter \<Rightarrow> string \<Rightarrow> session \<times> dom \<Rightarrow> session \<times> dom" where
  "addToCart fmt productId sd =
     (case sd of (s, d) \<Rightarrow>
        (case api s of
           None \<Rightarrow> (s\<lparr>console := console s @ [(''API client not available'', None)]\<rparr>, d)
         | Some a \<Rightarrow>
             (case product_button d productId of
                Inl x \<Rightarrow>
                  (s\<lparr>console := console s @ [(''Error adding to cart:'', Some x)],
                     alerts := alerts s @ [''Failed to add item to cart. Please try again.'']\<rparr>,
                   d)
              | Inr button \<Rightarrow>
                  let d1 = set_button productId True ''Adding...'' d;
                      s1 = s\<lparr>calls := calls s @ [AddToCart productId 1]\<rparr>
                  in
                    (case api_addToCart a productId 1 of
                       Inr c \<Rightarrow>
                         let s2 = s1\<lparr>cart := c\<rparr> in
                         (case updateCartDisplay fmt (storeData s2) (cart s2) d1 of
                            (d2, None) \<Rightarrow> (s2, set_button productId False ''Add to Cart'' d2)
                          | (d2, Some e) \<Rightarrow>
                              (s2\<lparr>console := console s2 @ [(''Error adding to cart:'', Some e)],
                                  alerts := alerts s2 @
                                    [''Failed to add item to cart. Please try again.'']\<rparr>,
                               set_button productId False ''Add to Cart'' d2))
                     | Inl e \<Rightarrow>
                         (s1\<lparr>console := console s1 @ [(''Error adding to cart:'', Some e)],
                             alerts := alerts s1 @
                               [''Failed to add item to cart. Please try again.'']\<rparr>,
                          set_button productId False ''Add to Cart'' d1)))))"

text \<open>
  \<^verbatim>\<open>updateCartQuantity(productId, newQuantity)\<close>. The branch for a quantity of zero or
  less returns at once: the script has no call that removes an item.
\<close>

definition updateCartQuantity ::
  "formatter \<Rightarrow> string \<Rightarrow> int \<Rightarrow> session \<times> dom \<Rightarrow> session \<times> dom" where
  "updateCartQuantity fmt productId newQuantity sd =
     (case sd of (s, d) \<Rightarrow>
        (case api s of
           None \<Rightarrow> (s\<lparr>console := console s @ [(''API client not available'', None)]\<rparr>, d)
         | Some a \<Rightarrow>
             if newQuantity \<le> 0 then (s, d)
             else
               let s1 = s\<lparr>calls := calls s @ [AddToCart productId newQuantity]\<rparr> in
               (case api_addToCart a productId newQuantity of
                  Inr c \<Rightarrow>
                    let s2 = s1\<lparr>cart := c\<rparr> in
                    (case updateCartDisplay fmt (storeData s2) (cart s2) d of
                       (d2, None) \<Rightarrow> (s2, d2)
                     | (d2, Some e) \<Rightarrow>
                         (s2\<lparr>console := console s2 @ [(''Error updating cart:'', Some e)],
                             alerts := alerts s2 @ [''Failed to update cart. Please try again.'']\<rparr>,
                          d2))
                | Inl e \<Rightarrow>
                    (s1\<lparr>console := console s1 @ [(''Error updating cart:'', Some e)],
                        alerts := alerts s1 @ [''Failed to update cart. Please try again.'']\<rparr>,
                     d))))"

definition delivery_enabled_opt :: "store option \<Rightarrow> bool" where
  "delivery_enabled_opt sd =
     (case sd of None \<Rightarrow> False
      | Some st \<Rightarrow> (case st_configuration st of None \<Rightarrow> False | Some c \<Rightarrow> cfg_delivery_enabled c))"

definition pickup_enabled_opt :: "store option \<Rightarrow> bool" where
  "pickup_enabled_opt sd =
     (case sd of None \<Rightarrow> False
      | Some st \<Rightarrow> (case st_configuration st of None \<Rightarrow> False | Some c \<Rightarrow> cfg_pickup_enabled c))"

definition checkoutModal :: "store option \<Rightarrow> string" where
  \<open>checkoutModal sd =
      nl @ ''    <div class="modal">'' @ nl @ ''      <div class="modal-header">'' @ nl @
      ''        <h2>Checkout</h2>'' @ nl @
      ''        <button class="close-cart" onclick="this.closest('.modal-overlay').remove()">'' @
      [CHR 0xD7] @ ''</button>'' @ nl @ ''      </div>'' @ nl @ ''      <div class="modal-body">'' @
      nl @ ''        <form id="checkout-form" onsubmit="submitCheckout(event)">'' @ nl @
      ''          <div class="form-group">'' @ nl @
      ''            <label for="customer_name">Name *</label>'' @ nl @
      ''            <input type="text" id="customer_name" name="customer_name" required>'' @ nl @
      ''          </div>'' @ nl @ ''          <div class="form-group">'' @ nl @
      ''            <label for="customer_email">Email *</label>'' @ nl @
      ''            <input type="email" id="customer_email" name="customer_email" required>'' @ nl @
      ''          </div>'' @ nl @ ''          <div class="form-group">'' @ nl @
      ''            <label for="customer_phone">Phone *</label>'' @ nl @
      ''            <input type="tel" id="customer_phone" name="customer_phone" required>'' @ nl @
      ''          </div>'' @ nl @ ''          <div class="form-group">'' @ nl @
      ''            <label for="delivery_method">Delivery Method *</label>'' @ nl @
      ''            <select id="delivery_method" name="delivery_method" required>'' @ nl @
      ''              '' @
      (if delivery_enabled_opt sd then ''<option value="delivery">Delivery</option>'' else []) @
      nl @ ''              '' @
      (if pickup_enabled_opt sd then ''<option value="pickup">Pickup</option>'' else []) @ nl @
      ''            </select>'' @ nl @ ''          </div>'' @ nl @
      ''          <div class="form-group">'' @ nl @
      ''            <label for="delivery_address">Delivery Address</label>'' @ nl @
      ''            <input type="text" id="delivery_address" name="delivery_address">'' @ nl @
      ''          </div>'' @ nl @ ''          <div class="form-group">'' @ nl @
      ''            <label for="payment_method">Payment Method *</label>'' @ nl @
      ''            <select id="payment_method" name="payment_method" required>'' @ nl @
      ''              <option value="cash">Cash</option>'' @ nl @
      ''              <option value="card">Card</option>'' @ nl @
      ''              <option value="online">Online</option>'' @ nl @ ''            </select>'' @ nl @
      ''          </div>'' @ nl @ ''          <div class="form-group">'' @ nl @
      ''            <label for="special_instructions">Special Instructions</label>'' @ nl @
      ''            <textarea id="special_instructions" name="special_instructions" rows="3"></textarea>'' @
      nl @ ''          </div>'' @ nl @ ''          <div class="form-group">'' @ nl @
      ''            <label for="promotion_code">Promotion Code (Optional)</label>'' @ nl @
      ''            <input type="text" id="promotion_code" name="promotion_code">'' @ nl @
      ''          </div>'' @ nl @
      ''          <button type="submit" class="checkout-btn">Place Order</button>'' @ nl @
      ''        </form>'' @ nl @ ''      </div>'' @ nl @ ''    </div>'' @ nl @ ''  ''\<close>

definition showCheckoutModal :: "session \<times> dom \<Rightarrow> session \<times> dom" where
  "showCheckoutModal sd =
     (case sd of (s, d) \<Rightarrow> (s, d\<lparr>modals := modals d @ [checkoutModal (storeData s)]\<rparr>))"

text \<open>
  \<^verbatim>\<open>handleCheckout()\<close>: two guards, then the form. The order itself is sent later, by the
  form's submit handler.
\<close>

definition handleCheckout :: "session \<times> dom \<Rightarrow> session \<times> dom" where
  "handleCheckout sd =
     (case sd of (s, d) \<Rightarrow>
        (case api s of
           None \<Rightarrow> (s\<lparr>console := console s @ [(''API client not available'', None)]\<rparr>, d)
         | Some a \<Rightarrow>
             if length (items (cart s)) = 0 then (s\<lparr>alerts := alerts s @ [''Your cart is empty'']\<rparr>, d)
             else showCheckoutModal (s, d)))"

section \<open>Values of the script\<close>

text \<open>
  A number is an IEEE double: not-a-number, one of the two infinities, the negative zero,
  or a finite value, \<open>Finite 0\<close> being the positive zero (every double is such a real;
  the model does not say which reals are doubles). \<^verbatim>\<open>String(n)\<close> writes a whole number up
  to 9007199254740992 in decimal digits; for every other finite value \<open>nt\<close> gives the text
  (\<^verbatim>\<open>12.99\<close> or \<^verbatim>\<open>1e+21\<close>, say).
\<close>

datatype number = NaN | PosInfinity | NegInfinity | NegZero | Finite real

fun number_truthy :: "number \<Rightarrow> bool" where
  "number_truthy NaN = False"
| "number_truthy NegZero = False"
| "number_truthy (Finite x) = (x \<noteq> 0)"
| "number_truthy PosInfinity = True"
| "number_truthy NegInfinity = True"

fun number_text :: "(real \<Rightarrow> string) \<Rightarrow> number \<Rightarrow> string" where
  "number_text nt NaN = ''NaN''"
| "number_text nt PosInfinity = ''Infinity''"
| "number_text nt NegInfinity = ''-Infinity''"
| "number_text nt NegZero = ''0''"
| "number_text nt (Finite x) =
     (if of_int \<lfloor>x\<rfloor> = x \<and> \<bar>x\<bar> \<le> 9007199254740992 then show_int \<lfloor>x\<rfloor> else nt x)"

text \<open>
  The values an object literal or a parsed JSON text can hold. The pairs of \<open>JObj\<close> are
  the members in the order they are written; a key written twice keeps its last value.
  Truthiness is what a guard \<^verbatim>\<open>if (v)\<close> or an operand of \<^verbatim>\<open>||\<close> tests, and
  \<open>to_string\<close> is the conversion \<^verbatim>\<open>String(v)\<close> that \<^verbatim>\<open>URLSearchParams.append\<close> and
  \<^verbatim>\<open>new Error\<close> apply: an array joins its elements with commas, \<^verbatim>\<open>null\<close> and
  \<^verbatim>\<open>undefined\<close> elements left empty, and a plain object is \<^verbatim>\<open>[object Object]\<close>.
\<close>

datatype jsval =
  JUndefined | JNull | JBool bool | JNum number | JStr string | JArr "jsval list"
| JObj "(string \<times> jsval) list"

fun truthy :: "jsval \<Rightarrow> bool" where
  "truthy JUndefined = False"
| "truthy JNull = False"
| "truthy (JBool b) = b"
| "truthy (JNum n) = number_truthy n"
| "truthy (JStr s) = (s \<noteq> [])"
| "truthy (JArr xs) = True"
| "truthy (JObj ps) = True"

fun to_string :: "(real \<Rightarrow> string) \<Rightarrow> jsval \<Rightarrow> string" where
  "to_string nt JUndefined = ''undefined''"
| "to_string nt JNull = ''null''"
| "to_string nt (JBool b) = (if b then ''true'' else ''false'')"
| "to_string nt (JNum n) = number_text nt n"
| "to_string nt (JStr s) = s"
| "to_string nt (JArr xs) =
     join '',''
       (map (\<lambda>x. if x = JNull \<or> x = JUndefined then [] else to_string nt x) xs)"
| "to_string nt (JObj ps) = ''[object Object]''"


section \<open>api-client.js: the query of getProducts\<close>

text \<open>
  The \<^verbatim>\<open>filters\<close> argument is a plain object: a finite map from keys to values, where
  reading a key the object lacks gives \<^verbatim>\<open>undefined\<close>. \<^verbatim>\<open>params.append(k, v)\<close> stores
  the string conversion of \<open>v\<close>.
\<close>

type_synonym js_object = "string \<rightharpoonup> jsval"

definition read_key :: "js_object \<Rightarrow> string \<Rightarrow> jsval" where
  "read_key obj k = (case obj k of None \<Rightarrow> JUndefined | Some v \<Rightarrow> v)"

definition getProducts_params :: "(real \<Rightarrow> string) \<Rightarrow> js_object \<Rightarrow> (string \<times> string) list" where
  "getProducts_params nt filters =
     (if truthy (read_key filters ''category'')
      then [(''category'', to_string nt (read_key filters ''category''))] else []) @
     (if truthy (read_key filters ''search'')
      then [(''search'', to_string nt (read_key filters ''search''))] else []) @
     (if truthy (read_key filters ''min_price'')
      then [(''min_price'', to_string nt (read_key filters ''min_price''))] else []) @
     (if truthy (read_key filters ''max_price'')
      then [(''max_price'', to_string nt (read_key filters ''max_price''))] else []) @
     (if read_key filters ''in_stock'' \<noteq> JUndefined
      then [(''in_stock'', to_string nt (read_key filters ''in_stock''))] else [])"

text \<open>
  A response as the client reads it: the \<^verbatim>\<open>ok\<close> flag, the status line, and what
  \<^verbatim>\<open>response.json()\<close> settles to, the parsed body or the error of a body that does not
  parse.
\<close>

record response =
  resp_ok :: bool
  resp_status :: nat
  resp_statusText :: string
  resp_json :: "error + jsval"

text \<open>
  \<^verbatim>\<open>getProducts(filters)\<close>. \<open>qs\<close> is \<^verbatim>\<open>URLSearchParams.prototype.toString\<close> and
  \<open>fetch\<close> what the request for a URL settles to. The \<^verbatim>\<open>catch\<close> clause logs the error
  and throws it again, so the caller sees the same rejection.
\<close>

definition getProducts_url ::
  "(real \<Rightarrow> string) \<Rightarrow> ((string \<times> string) list \<Rightarrow> string) \<Rightarrow> string \<Rightarrow> string \<Rightarrow> js_object \<Rightarrow>
   string" where
  "getProducts_url nt qs baseUrl storeSlug filters =
     (let queryString = qs (getProducts_params nt filters)
      in baseUrl @ ''/api/store/'' @ storeSlug @ ''/products'' @
         (if queryString \<noteq> [] then ''?'' @ queryString else []))"

definition getProducts ::
  "(real \<Rightarrow> string) \<Rightarrow> ((string \<times> string) list \<Rightarrow> string) \<Rightarrow> (string \<Rightarrow> error + response) \<Rightarrow>
   string \<Rightarrow> string \<Rightarrow> js_object \<Rightarrow> error + jsval" where
  "getProducts nt qs fetch baseUrl storeSlug filters =
     (case fetch (getProducts_url nt qs baseUrl storeSlug filters) of
        Inl e \<Rightarrow> Inl e
      | Inr response \<Rightarrow>
          if \<not> resp_ok response then
            Inl (Error (''HTTP '' @ show_nat (resp_status response) @ '': '' @
                        resp_statusText response))
          else resp_json response)"

section \<open>custom-api.js: the request helper\<close>

text \<open>
  \<^verbatim>\<open>CustomAPIConfig\<close>; an API key of \<^verbatim>\<open>null\<close> is the empty string.
\<close>

record api_config =
  baseUrl :: string
  apiKey :: string
  timeout :: nat










section \<open>Example values\<close>

text \<open>Concrete stores, clients and documents on which the theorems below are run.\<close>

definition failing_client :: api_client where
  "failing_client =
     \<lparr>api_getStore = Inl (Error ''Network error''), api_getProducts = Inr [],
      api_getCategories = Inr [], api_getPromotions = Inr [],
      api_addToCart = (\<lambda>p q. Inl (Error ''Network error''))\<rparr>"

definition offline_session :: session where
  "offline_session = initial_session\<lparr>api := Some failing_client\<rparr>"

definition one_button_dom :: dom where
  "one_button_dom =
     empty_dom\<lparr>product_button :=
       (\<lambda>_. Inr None)(''p1'' := Inr (Some \<lparr>btn_disabled = False, btn_text = ''Add to Cart''\<rparr>))\<rparr>"

definition dollars :: formatter where
  "dollars price currency = ''$''"

definition keep :: "char \<Rightarrow> string" where
  "keep c = [c]"


definition demo_store :: store where
  \<open>demo_store =
     \<lparr>st_name = ''Pizza Palace'', st_description = ''Wood-fired <pizza> & more'',
      st_logo_url = [], st_phone = [], st_email = [], st_address = [],
      st_social_links =
        [\<lparr>link_platform = ''Insta"gram'', link_url = ''https://example.com'', link_enabled = True\<rparr>],
      st_configuration = None\<rparr>\<close>

definition euro_store :: store where
  "euro_store =
     demo_store\<lparr>st_configuration :=
       Some \<lparr>cfg_currency = ''EURO'', cfg_delivery_enabled = True, cfg_pickup_enabled = True\<rparr>\<rparr>"

definition pizza :: product where
  "pizza =
     \<lparr>pr_id = ''p1'', pr_name = ''Margherita'', pr_description = [], pr_price = 8,
      pr_category = ''Pizza'', pr_image_url = [], pr_stock_quantity = Null,
      pr_is_available = True, pr_tags = []\<rparr>"

definition cola :: product where
  "cola =
     \<lparr>pr_id = ''p2'', pr_name = ''Cola'', pr_description = ''0.5 l'', pr_price = 2,
      pr_category = ''Drinks'', pr_image_url = [], pr_stock_quantity = Quantity 0,
      pr_is_available = True, pr_tags = [''cold'']\<rparr>"






definition wine :: category where
  "wine = \<lparr>cat_name = ''<b>Wine</b>'', cat_product_count = 0\<rparr>"

definition loaded_session :: session where
  "loaded_session =
     initial_session\<lparr>storeData := Some demo_store, products := [pizza, cola],
       categories := [wine], api := Some failing_client\<rparr>"

definition quoted_store :: store where
  \<open>quoted_store =
     demo_store\<lparr>st_name := ''x" onerror="alert(1)'', st_logo_url := ''logo.png''\<rparr>\<close>



section \<open>Auxiliary lemmas\<close>

text \<open>
  A piece of markup occurs in a template when the template's chunks, read from the left,
  reach the piece's first chunk and then run through all of it.
\<close>

lemma sub_skip: "sublist x ys \<Longrightarrow> sublist x (p @ ys)"
  by (metis sublist_append_leftI sublist_order.order_trans)

lemma sub_here: "prefix xs ys \<Longrightarrow> sublist (a @ xs) (a @ ys)"
  by (simp add: prefix_imp_sublist)

lemma pre_step: "prefix xs ys \<Longrightarrow> prefix (a @ xs) (a @ ys)"
  by simp

lemma pre_end: "prefix x (x @ ys)"
  by simp

lemma availability_iff:
  "availability p =
     (if pr_is_available p \<and>
         (pr_stock_quantity p = Null \<or> (\<exists>n. pr_stock_quantity p = Quantity n \<and> 0 < n))
      then [] else ''disabled'')"
  by (cases "pr_stock_quantity p") (auto simp: availability_def)

text \<open>When a pass over a list goes through.\<close>

lemma array_map_Inr: "array_map f xs = Inr ys \<longleftrightarrow> map f xs = map Inr ys"
proof (induction xs arbitrary: ys)
  case Nil
  show ?case by auto
next
  case (Cons x xs)
  show ?case
  proof (cases "f x")
    case (Inl e)
    then show ?thesis by (cases ys) auto
  next
    case (Inr y)
    show ?thesis
    proof (cases "array_map f xs")
      case (Inl e)
      have "\<And>zs. map f xs \<noteq> map Inr zs" using Cons.IH Inl by (metis sum.distinct(1))
      then show ?thesis using Inr Inl by (cases ys) auto
    next
      case r: (Inr zs)
      then have "map f xs = map Inr zs" using Cons.IH by simp
      then show ?thesis using Inr r by (cases ys) (auto simp: inj_map_eq_map [OF inj_Inr])
    qed
  qed
qed

lemma array_map_all_Inr:
  "(\<forall>x\<in>set xs. \<exists>y. f x = Inr y) \<Longrightarrow> \<exists>ys. array_map f xs = Inr ys"
  by (induction xs) auto

text \<open>When the functions that format a price return markup.\<close>

lemma renderProduct_returns:
  "(\<exists>card. renderProduct fmt now sd p = Inr card) \<longleftrightarrow>
     (\<exists>st. sd = Some st \<and> well_formed_currency (currency_of st))"
  by (auto simp: renderProduct_def Let_def formatPrice_def split: option.splits if_splits)

lemma renderProducts_returns:
  assumes h: "filteredProducts ps c \<noteq> []"
  shows "(\<exists>html. renderProducts fmt clock sd ps c = Inr html) \<longleftrightarrow>
     (\<exists>st. sd = Some st \<and> well_formed_currency (currency_of st))"
proof
  let ?f = "\<lambda>(i, product). renderProduct fmt (clock i) sd product"
  let ?xs = "enumerate 0 (filteredProducts ps c)"
  assume "\<exists>html. renderProducts fmt clock sd ps c = Inr html"
  then obtain cards where "array_map ?f ?xs = Inr cards"
    unfolding renderProducts_def if_not_P [OF h] by (auto split: sum.splits)
  then have m: "map ?f ?xs = map Inr cards" by (simp add: array_map_Inr)
  have "?xs \<noteq> []" using h by (simp add: enumerate_eq_zip)
  then obtain x xs where x: "?xs = x # xs" by (cases ?xs) auto
  obtain i p where ip: "x = (i, p)" by (cases x)
  from m x ip have "\<exists>card. renderProduct fmt (clock i) sd p = Inr card"
    by (cases cards) auto
  then show "\<exists>st. sd = Some st \<and> well_formed_currency (currency_of st)"
    using renderProduct_returns by blast
next
  let ?f = "\<lambda>(i, product). renderProduct fmt (clock i) sd product"
  let ?xs = "enumerate 0 (filteredProducts ps c)"
  assume "\<exists>st. sd = Some st \<and> well_formed_currency (currency_of st)"
  then have "\<forall>x\<in>set ?xs. \<exists>y. ?f x = Inr y"
    using renderProduct_returns by (auto simp: split_def)
  then obtain cards where "array_map ?f ?xs = Inr cards"
    using array_map_all_Inr by blast
  then show "\<exists>html. renderProducts fmt clock sd ps c = Inr html"
    unfolding renderProducts_def if_not_P [OF h] by simp
qed







lemma renderHeader_alt:
  assumes "st_logo_url st \<noteq> []"
  shows \<open>sublist
     (''" alt="'' @ escapeHtml (if st_name st \<noteq> [] then st_name st else ''Store'') @
      ''" class="logo" onerror="this.style.display='none'; const initialsEl = this.nextElementSibling; if(initialsEl) initialsEl.style.display='flex';">'')
     (renderHeader up st)\<close>
  unfolding renderHeader_def Let_def if_P [OF assms] append_assoc
  apply (rule sub_here | rule sub_skip)+
  apply (rule pre_step)+
  apply (rule pre_end)
  done

lemma renderNavigation_button:
  \<open>sublist (''" data-category="'' @ escapeHtml (cat_name cat) @ ''">'')
     (renderNavigation [cat] cur)\<close>
proof -
  have ne: "[cat] \<noteq> []" by simp
  show ?thesis
    unfolding renderNavigation_def renderCategoryButton_def list.map concat.simps append_assoc
      append_Nil2 if_not_P [OF ne]
    apply (rule sub_here | rule sub_skip)+
    apply (rule pre_step)+
    apply (rule pre_end)
    done
qed

lemma renderProducts_empty_msg:
  assumes h: "filteredProducts ps c = []"
  shows \<open>\<exists>html. renderProducts fmt clock sd ps c = Inr html \<and>
         sublist
           (''        <p>'' @
            (if c = ''all'' then ''This store has no products yet.''
             else ''No products in the "'' @ c @ ''" category.'') @ ''</p>'')
           html\<close>
  unfolding renderProducts_def if_P [OF h]
  apply (rule exI)
  apply (rule conjI)
   apply (rule refl)
  apply (rule sub_here | rule sub_skip)+
  apply (rule pre_step)+
  apply (rule pre_end)
  done

section \<open>Cart handlers\<close>

text \<open>
  Claim C2. When the client's \<^verbatim>\<open>addToCart\<close> is called and rejects, the handler leaves
  the cart variable as it was, opens an alert box with the failure message, and the button
  of that product, if the document has one, ends enabled and labelled \<^verbatim>\<open>Add to Cart\<close>.
  The call is made once the button has been looked up; a lookup that throws ends in the
  same alert, with the cart as it was and no call made.
\<close>

theorem addToCart_failure_keeps_cart:
  assumes "api s = Some a"
  shows "(product_button d productId = Inr b \<and> api_addToCart a productId 1 = Inl e \<longrightarrow>
            calls (fst (addToCart fmt productId (s, d))) = calls s @ [AddToCart productId 1] \<and>
            cart (fst (addToCart fmt productId (s, d))) = cart s \<and>
            alerts (fst (addToCart fmt productId (s, d))) =
              alerts s @ [''Failed to add item to cart. Please try again.''] \<and>
            product_button (snd (addToCart fmt productId (s, d))) productId =
              Inr (map_option (\<lambda>b. b\<lparr>btn_disabled := False, btn_text := ''Add to Cart''\<rparr>) b)) \<and>
         (product_button d productId = Inl x \<longrightarrow>
            calls (fst (addToCart fmt productId (s, d))) = calls s \<and>
            cart (fst (addToCart fmt productId (s, d))) = cart s \<and>
            alerts (fst (addToCart fmt productId (s, d))) =
              alerts s @ [''Failed to add item to cart. Please try again.''] \<and>
            snd (addToCart fmt productId (s, d)) = d)"
  using assms
  by (cases b) (auto simp: addToCart_def set_button_def Let_def)

theorem addToCart_failure_keeps_cart_witness:
  "api offline_session = Some failing_client \<and>
   product_button one_button_dom ''p1'' =
     Inr (Some \<lparr>btn_disabled = False, btn_text = ''Add to Cart''\<rparr>) \<and>
   api_addToCart failing_client ''p1'' 1 = Inl (Error ''Network error'') \<and>
   calls (fst (addToCart dollars ''p1'' (offline_session, one_button_dom))) = [AddToCart ''p1'' 1] \<and>
   cart (fst (addToCart dollars ''p1'' (offline_session, one_button_dom))) = empty_cart \<and>
   alerts (fst (addToCart dollars ''p1'' (offline_session, one_button_dom))) =
     [''Failed to add item to cart. Please try again.''] \<and>
   product_button (snd (addToCart dollars ''p1'' (offline_session, one_button_dom))) ''p1'' =
     Inr (Some \<lparr>btn_disabled = False, btn_text = ''Add to Cart''\<rparr>)"
proof -
  have a: "api offline_session = Some failing_client"
    by (simp add: offline_session_def)
  have b: "product_button one_button_dom ''p1'' =
      Inr (Some \<lparr>btn_disabled = False, btn_text = ''Add to Cart''\<rparr>)"
    by (simp add: one_button_dom_def)
  have r: "api_addToCart failing_client ''p1'' 1 = Inl (Error ''Network error'')"
    by (simp add: failing_client_def)
  note T = addToCart_failure_keeps_cart [OF a, of one_button_dom "''p1''"
      "Some \<lparr>btn_disabled = False, btn_text = ''Add to Cart''\<rparr>" "Error ''Network error''" dollars,
      THEN conjunct1, rule_format, OF conjI [OF b r]]
  show ?thesis
    using T a b r by (simp add: offline_session_def initial_session_def)
qed

text \<open>
  Claim C3, as the code has it. With an empty cart \<^verbatim>\<open>handleCheckout\<close> makes no call on
  the API client and opens no form. It shows the message \<^verbatim>\<open>Your cart is empty\<close> when a
  client is there; when \<^verbatim>\<open>api\<close> is still \<^verbatim>\<open>null\<close> the first guard returns with a
  console line and no message.
\<close>

theorem handleCheckout_empty_cart:
  assumes "items (cart s) = []"
  shows "calls (fst (handleCheckout (s, d))) = calls s \<and>
         snd (handleCheckout (s, d)) = d \<and>
         (case api s of
            Some a \<Rightarrow> alerts (fst (handleCheckout (s, d))) = alerts s @ [''Your cart is empty'']
          | None \<Rightarrow> alerts (fst (handleCheckout (s, d))) = alerts s \<and>
                    console (fst (handleCheckout (s, d))) =
                      console s @ [(''API client not available'', None)])"
  using assms by (simp add: handleCheckout_def split: option.splits)

theorem handleCheckout_empty_cart_witness:
  "items (cart offline_session) = [] \<and>
   calls (fst (handleCheckout (offline_session, one_button_dom))) = [] \<and>
   snd (handleCheckout (offline_session, one_button_dom)) = one_button_dom \<and>
   alerts (fst (handleCheckout (offline_session, one_button_dom))) = [''Your cart is empty'']"
proof -
  have e: "items (cart offline_session) = []"
    by (simp add: offline_session_def initial_session_def empty_cart_def)
  show ?thesis
    using handleCheckout_empty_cart [OF e, of one_button_dom] e
    by (simp add: offline_session_def initial_session_def)
qed

text \<open>
  The claim as stated fails in the session the script starts in: the cart is empty, no
  client is stored yet, and \<^verbatim>\<open>handleCheckout\<close> returns without any alert.
\<close>

theorem handleCheckout_counterexample:
  "items (cart initial_session) = [] \<and>
   alerts (fst (handleCheckout (initial_session, empty_dom))) = alerts initial_session \<and>
   snd (handleCheckout (initial_session, empty_dom)) = empty_dom"
  by (simp add: handleCheckout_def initial_session_def empty_cart_def)

text \<open>
  Claim C6, as the code has it. A quantity of zero or less: no call, the cart and the
  document as before. A positive quantity with a client in place: the call that
  \<^verbatim>\<open>addToCart\<close> makes once it has looked up the button, with the new quantity in place
  of 1, and the cart becomes the returned one when the call succeeds. With no client no
  call is made at all.
\<close>

theorem updateCartQuantity_calls:
  "(newQuantity \<le> 0 \<longrightarrow>
      calls (fst (updateCartQuantity fmt productId newQuantity (s, d))) = calls s \<and>
      cart (fst (updateCartQuantity fmt productId newQuantity (s, d))) = cart s \<and>
      snd (updateCartQuantity fmt productId newQuantity (s, d)) = d) \<and>
   (newQuantity > 0 \<and> api s = Some a \<longrightarrow>
      calls (fst (updateCartQuantity fmt productId newQuantity (s, d))) =
        calls s @ [AddToCart productId newQuantity] \<and>
      (product_button d productId = Inr b \<longrightarrow>
         calls (fst (addToCart fmt productId (s, d))) = calls s @ [AddToCart productId 1]) \<and>
      cart (fst (updateCartQuantity fmt productId newQuantity (s, d))) =
        (case api_addToCart a productId newQuantity of Inr c \<Rightarrow> c | Inl e \<Rightarrow> cart s)) \<and>
   (api s = None \<longrightarrow>
      calls (fst (updateCartQuantity fmt productId newQuantity (s, d))) = calls s)"
  by (auto simp add: updateCartQuantity_def addToCart_def Let_def
        split: option.splits sum.splits prod.splits)

theorem updateCartQuantity_calls_witness:
  "(0::int) \<le> 0 \<and> (3::int) > 0 \<and> api offline_session = Some failing_client \<and>
   api initial_session = None \<and>
   calls (fst (updateCartQuantity dollars ''p1'' 0 (offline_session, one_button_dom))) = [] \<and>
   cart (fst (updateCartQuantity dollars ''p1'' 0 (offline_session, one_button_dom))) = empty_cart \<and>
   calls (fst (updateCartQuantity dollars ''p1'' 3 (offline_session, one_button_dom))) =
     [AddToCart ''p1'' 3] \<and>
   product_button one_button_dom ''p1'' =
     Inr (Some \<lparr>btn_disabled = False, btn_text = ''Add to Cart''\<rparr>) \<and>
   calls (fst (addToCart dollars ''p1'' (offline_session, one_button_dom))) =
     [AddToCart ''p1'' 1] \<and>
   calls (fst (updateCartQuantity dollars ''p1'' 3 (initial_session, one_button_dom))) = []"
  using updateCartQuantity_calls [of 0 dollars "''p1''" offline_session one_button_dom
      failing_client "Some \<lparr>btn_disabled = False, btn_text = ''Add to Cart''\<rparr>"]
    updateCartQuantity_calls [of 3 dollars "''p1''" offline_session one_button_dom
      failing_client "Some \<lparr>btn_disabled = False, btn_text = ''Add to Cart''\<rparr>"]
    updateCartQuantity_calls [of 3 dollars "''p1''" initial_session one_button_dom
      failing_client "Some \<lparr>btn_disabled = False, btn_text = ''Add to Cart''\<rparr>"]
  by (simp add: offline_session_def initial_session_def one_button_dom_def)

text \<open>
  The claim as stated fails where no client is stored: the quantity is positive and no
  call is made.
\<close>

theorem updateCartQuantity_counterexample:
  "(2::int) > 0 \<and>
   calls (fst (updateCartQuantity dollars ''p1'' 2 (initial_session, empty_dom))) =
     calls initial_session"
  by (simp add: updateCartQuantity_def initial_session_def)

section \<open>The product grid\<close>

text \<open>
  Claim C10. Every card that \<^verbatim>\<open>renderProduct\<close> returns holds the add-to-cart button in
  one of two forms: without the \<^verbatim>\<open>disabled\<close> attribute and labelled \<^verbatim>\<open>Add to Cart\<close>
  when the product is available and its stock is \<^verbatim>\<open>null\<close> or a number above zero, and
  with the attribute and the label \<^verbatim>\<open>Out of Stock\<close> in every other case. A card is
  returned exactly when the store data is there and its currency code is well formed;
  otherwise the function throws and there is no card.
\<close>

theorem renderProduct_button:
  \<open>(\<forall>card. renderProduct fmt now sd p = Inr card \<longrightarrow>
      sublist
        (''        <button '' @ nl @ ''          class="add-to-cart-btn" '' @ nl @ ''          '' @
         (if pr_is_available p \<and>
             (pr_stock_quantity p = Null \<or> (\<exists>n. pr_stock_quantity p = Quantity n \<and> 0 < n))
          then [] else ''disabled'') @ nl @
         ''          onclick="addToCart('' @ [CHR 0x27] @ pr_id p @ [CHR 0x27] @ '')"'' @ nl @
         ''          data-product-id="'' @ pr_id p @ ''"'' @ nl @ ''        >'' @ nl @ ''          '' @
         (if pr_is_available p \<and>
             (pr_stock_quantity p = Null \<or> (\<exists>n. pr_stock_quantity p = Quantity n \<and> 0 < n))
          then ''Add to Cart'' else ''Out of Stock'') @ nl @ ''        </button>'')
        card) \<and>
   ((\<exists>card. renderProduct fmt now sd p = Inr card) \<longleftrightarrow>
      (\<exists>st. sd = Some st \<and> well_formed_currency (currency_of st)))\<close>
proof (intro conjI allI impI)
  let ?ok = "pr_is_available p \<and>
          (pr_stock_quantity p = Null \<or> (\<exists>n. pr_stock_quantity p = Quantity n \<and> 0 < n))"
  fix card
  assume h: "renderProduct fmt now sd p = Inr card"
  have l: "(if availability p \<noteq> [] then ''Out of Stock'' else ''Add to Cart'') =
        (if ?ok then ''Add to Cart'' else ''Out of Stock'')"
    by (simp add: availability_iff)
  from h obtain st where sd: "sd = Some st" and wf: "well_formed_currency (currency_of st)"
    by (auto simp: renderProduct_def Let_def formatPrice_def split: option.splits if_splits)
  note c = h [unfolded renderProduct_def Let_def sd option.case formatPrice_def if_P [OF wf]
      sum.case sum.inject l, symmetric]
  show \<open>sublist
        (''        <button '' @ nl @ ''          class="add-to-cart-btn" '' @ nl @ ''          '' @
         (if ?ok then [] else ''disabled'') @ nl @
         ''          onclick="addToCart('' @ [CHR 0x27] @ pr_id p @ [CHR 0x27] @ '')"'' @ nl @
         ''          data-product-id="'' @ pr_id p @ ''"'' @ nl @ ''        >'' @ nl @ ''          '' @
         (if ?ok then ''Add to Cart'' else ''Out of Stock'') @ nl @ ''        </button>'')
        card\<close>
    unfolding c
    unfolding availability_iff
    apply (rule sub_here | rule sub_skip)+
    apply (rule pre_step)+
    apply (rule pre_end)
    done
next
  show "(\<exists>card. renderProduct fmt now sd p = Inr card) \<longleftrightarrow>
      (\<exists>st. sd = Some st \<and> well_formed_currency (currency_of st))"
    by (rule renderProduct_returns)
qed

theorem renderProduct_button_witness:
  \<open>(\<exists>card. renderProduct dollars 0 (Some demo_store) pizza = Inr card \<and>
      sublist
        (''        <button '' @ nl @ ''          class="add-to-cart-btn" '' @ nl @ ''          '' @
         [] @ nl @
         ''          onclick="addToCart('' @ [CHR 0x27] @ ''p1'' @ [CHR 0x27] @ '')"'' @ nl @
         ''          data-product-id="'' @ ''p1'' @ ''"'' @ nl @ ''        >'' @ nl @ ''          '' @
         ''Add to Cart'' @ nl @ ''        </button>'')
        card) \<and>
   (\<exists>card. renderProduct dollars 0 (Some demo_store) cola = Inr card \<and>
      sublist
        (''        <button '' @ nl @ ''          class="add-to-cart-btn" '' @ nl @ ''          '' @
         ''disabled'' @ nl @
         ''          onclick="addToCart('' @ [CHR 0x27] @ ''p2'' @ [CHR 0x27] @ '')"'' @ nl @
         ''          data-product-id="'' @ ''p2'' @ ''"'' @ nl @ ''        >'' @ nl @ ''          '' @
         ''Out of Stock'' @ nl @ ''        </button>'')
        card) \<and>
   (\<forall>card. renderProduct dollars 0 (Some euro_store) pizza \<noteq> Inr card) \<and>
   (\<forall>card. renderProduct dollars 0 None pizza \<noteq> Inr card)\<close>
proof -
  have wf: "\<exists>st. Some demo_store = Some st \<and> well_formed_currency (currency_of st)"
    by (simp add: demo_store_def currency_of_def well_formed_currency_def is_letter_def)
  have ok1: "(pr_is_available pizza \<and>
      (pr_stock_quantity pizza = Null \<or> (\<exists>n. pr_stock_quantity pizza = Quantity n \<and> 0 < n))) = True"
    and id1: "pr_id pizza = ''p1''"
    by (simp_all add: pizza_def)
  have ok2: "(pr_is_available cola \<and>
      (pr_stock_quantity cola = Null \<or> (\<exists>n. pr_stock_quantity cola = Quantity n \<and> 0 < n))) = False"
    and id2: "pr_id cola = ''p2''"
    by (simp_all add: cola_def)
  from renderProduct_button [of dollars 0 "Some demo_store" pizza, THEN conjunct2] wf
  obtain c1 where c1: "renderProduct dollars 0 (Some demo_store) pizza = Inr c1" by blast
  note s1 = renderProduct_button [of dollars 0 "Some demo_store" pizza, THEN conjunct1,
      rule_format, OF c1, unfolded ok1 id1 if_True]
  from renderProduct_button [of dollars 0 "Some demo_store" cola, THEN conjunct2] wf
  obtain c2 where c2: "renderProduct dollars 0 (Some demo_store) cola = Inr c2" by blast
  note s2 = renderProduct_button [of dollars 0 "Some demo_store" cola, THEN conjunct1,
      rule_format, OF c2, unfolded ok2 id2 if_False]
  have nwf: "\<not> (\<exists>st. Some euro_store = Some st \<and> well_formed_currency (currency_of st))"
    by (simp add: euro_store_def demo_store_def currency_of_def well_formed_currency_def)
  have n3: "\<forall>card. renderProduct dollars 0 (Some euro_store) pizza \<noteq> Inr card"
    using renderProduct_button [of dollars 0 "Some euro_store" pizza, THEN conjunct2] nwf
    by blast
  have n4: "\<forall>card. renderProduct dollars 0 None pizza \<noteq> Inr card"
    using renderProduct_button [of dollars 0 None pizza, THEN conjunct2] by blast
  show ?thesis using c1 s1 c2 s2 n3 n4 by blast
qed

text \<open>
  Claim C5. The products kept are those whose category equals \<^verbatim>\<open>currentCategory\<close>
  character for character, in their order, and all of them when \<^verbatim>\<open>currentCategory\<close> is
  \<^verbatim>\<open>all\<close>. When none is kept the markup holds the empty-state paragraph, worded for the
  whole store under \<^verbatim>\<open>all\<close> and for the category otherwise. When some are kept, the
  markup that \<^verbatim>\<open>renderProducts\<close> returns holds the cards of exactly these, each as
  \<^verbatim>\<open>renderProduct\<close> gives it, one after the other; and it returns that markup exactly
  when the store data is there with a well-formed currency code, since each card shows a
  price.
\<close>

theorem renderProducts_filter:
  \<open>filteredProducts ps c = filter (\<lambda>p. c = ''all'' \<or> pr_category p = c) ps \<and>
   (filteredProducts ps c = [] \<longrightarrow>
      (\<exists>html. renderProducts fmt clock sd ps c = Inr html \<and>
         sublist
           (''        <p>'' @
            (if c = ''all'' then ''This store has no products yet.''
             else ''No products in the "'' @ c @ ''" category.'') @ ''</p>'')
           html)) \<and>
   (filteredProducts ps c \<noteq> [] \<longrightarrow>
      (\<forall>html. renderProducts fmt clock sd ps c = Inr html \<longrightarrow>
         (\<exists>cards.
            map (\<lambda>(i, product). renderProduct fmt (clock i) sd product)
              (enumerate 0 (filteredProducts ps c)) = map Inr cards \<and>
            sublist (concat cards) html)) \<and>
      ((\<exists>html. renderProducts fmt clock sd ps c = Inr html) \<longleftrightarrow>
         (\<exists>st. sd = Some st \<and> well_formed_currency (currency_of st))))\<close>
proof (intro conjI impI allI)
  show "filteredProducts ps c = filter (\<lambda>p. c = ''all'' \<or> pr_category p = c) ps"
    by (simp add: filteredProducts_def)
next
  assume h: "filteredProducts ps c = []"
  show \<open>\<exists>html. renderProducts fmt clock sd ps c = Inr html \<and>
         sublist
           (''        <p>'' @
            (if c = ''all'' then ''This store has no products yet.''
             else ''No products in the "'' @ c @ ''" category.'') @ ''</p>'')
           html\<close>
    by (rule renderProducts_empty_msg [OF h])
next
  fix html
  assume h: "filteredProducts ps c \<noteq> []"
    and r: "renderProducts fmt clock sd ps c = Inr html"
  from r obtain cards where
    a: "array_map (\<lambda>(i, product). renderProduct fmt (clock i) sd product)
          (enumerate 0 (filteredProducts ps c)) = Inr cards"
    unfolding renderProducts_def if_not_P [OF h] by (auto split: sum.splits)
  note e = r [unfolded renderProducts_def if_not_P [OF h] a sum.case sum.inject, symmetric]
  have "sublist (concat cards) html"
    unfolding e by (intro sub_skip sublist_append_rightI)
  with a show "\<exists>cards.
            map (\<lambda>(i, product). renderProduct fmt (clock i) sd product)
              (enumerate 0 (filteredProducts ps c)) = map Inr cards \<and>
            sublist (concat cards) html"
    by (auto simp: array_map_Inr)
next
  assume h: "filteredProducts ps c \<noteq> []"
  show "(\<exists>html. renderProducts fmt clock sd ps c = Inr html) \<longleftrightarrow>
         (\<exists>st. sd = Some st \<and> well_formed_currency (currency_of st))"
    by (rule renderProducts_returns [OF h])
qed

theorem renderProducts_filter_witness:
  \<open>filteredProducts [pizza, cola] ''pizza'' = [] \<and>
   filteredProducts [pizza, cola] ''Pizza'' = [pizza] \<and>
   filteredProducts [pizza, cola] ''all'' = [pizza, cola] \<and>
   filteredProducts [] ''all'' = [] \<and>
   (\<exists>html. renderProducts dollars (\<lambda>i. 0) (Some demo_store) [pizza, cola] ''pizza'' = Inr html \<and>
      sublist (''        <p>'' @ (''No products in the "'' @ ''pizza'' @ ''" category.'') @ ''</p>'')
        html) \<and>
   (\<exists>html. renderProducts dollars (\<lambda>i. 0) (Some demo_store) [] ''all'' = Inr html \<and>
      sublist (''        <p>'' @ ''This store has no products yet.'' @ ''</p>'') html) \<and>
   (\<exists>html card. renderProducts dollars (\<lambda>i. 0) (Some demo_store) [pizza, cola] ''Pizza'' = Inr html \<and>
      renderProduct dollars 0 (Some demo_store) pizza = Inr card \<and> sublist card html) \<and>
   (\<forall>html. renderProducts dollars (\<lambda>i. 0) (Some euro_store) [pizza, cola] ''Pizza'' \<noteq> Inr html)\<close>
proof -
  have f1: "filteredProducts [pizza, cola] ''pizza'' = []"
    and f2: "filteredProducts [pizza, cola] ''Pizza'' = [pizza]"
    and f3: "filteredProducts [pizza, cola] ''all'' = [pizza, cola]"
    and f4: "filteredProducts [] ''all'' = []"
    by (simp_all add: filteredProducts_def pizza_def cola_def)
  have ne: "''pizza'' \<noteq> ''all''" by simp
  note t1 = renderProducts_filter [of "[pizza, cola]" "''pizza''" dollars "\<lambda>i. 0" "Some demo_store",
        THEN conjunct2, THEN conjunct1, rule_format, OF f1, unfolded if_not_P [OF ne]]
  note t2 = renderProducts_filter [of "[]" "''all''" dollars "\<lambda>i. 0" "Some demo_store",
        THEN conjunct2, THEN conjunct1, rule_format, OF f4]
  have s2: \<open>\<exists>html. renderProducts dollars (\<lambda>i. 0) (Some demo_store) [] ''all'' = Inr html \<and>
      sublist (''        <p>'' @ ''This store has no products yet.'' @ ''</p>'') html\<close>
    using t2 by (simp only: if_True refl)
  have f2': "filteredProducts [pizza, cola] ''Pizza'' \<noteq> []" by (simp add: f2)
  note t3 = renderProducts_filter [of "[pizza, cola]" "''Pizza''" dollars "\<lambda>i. 0",
        THEN conjunct2, THEN conjunct2, rule_format, OF f2']
  have wf: "\<exists>st. Some demo_store = Some st \<and> well_formed_currency (currency_of st)"
    by (simp add: demo_store_def currency_of_def well_formed_currency_def is_letter_def)
  from t3 [of "Some demo_store", THEN conjunct2] wf
  obtain html where
    h: "renderProducts dollars (\<lambda>i. 0) (Some demo_store) [pizza, cola] ''Pizza'' = Inr html"
    by blast
  from t3 [of "Some demo_store", THEN conjunct1, rule_format, OF h]
  obtain cards where
    m: "map (\<lambda>(i, product). renderProduct dollars 0 (Some demo_store) product)
          (enumerate 0 (filteredProducts [pizza, cola] ''Pizza'')) = map Inr cards"
    and s: "sublist (concat cards) html"
    by blast
  from m obtain card where "cards = [card]"
    and c: "renderProduct dollars 0 (Some demo_store) pizza = Inr card"
    by (cases cards) (auto simp: f2)
  with s have s3: "sublist card html" by simp
  have nwf: "\<not> (\<exists>st. Some euro_store = Some st \<and> well_formed_currency (currency_of st))"
    by (simp add: euro_store_def demo_store_def currency_of_def well_formed_currency_def)
  have n4: "\<forall>html. renderProducts dollars (\<lambda>i. 0) (Some euro_store) [pizza, cola] ''Pizza'' \<noteq> Inr html"
    using t3 [of "Some euro_store", THEN conjunct2] nwf by blast
  show ?thesis using f1 f2 f3 f4 t1 s2 h c s3 n4 by blast
qed

section \<open>The store API client\<close>




section \<open>The request helper\<close>




section \<open>Escaping\<close>

text \<open>
  Claim C1 at the inputs where the code breaks it. A category is named \<^verbatim>\<open><b>Wine</b>\<close>
  and has no products. \<^verbatim>\<open>renderNavigation\<close> writes the name through \<^verbatim>\<open>escapeHtml\<close>,
  so the button's \<^verbatim>\<open>data-category\<close> holds the name; after a click on that button the
  empty-state paragraph that \<^verbatim>\<open>renderProducts\<close> writes into \<^verbatim>\<open>main\<close> holds the name as
  it is, tags included. And \<^verbatim>\<open>escapeHtml\<close> leaves a double quote as it is also where its
  result is an attribute value: for a store with a logo and the name
  \<^verbatim>\<open>x" onerror="alert(1)\<close> the \<^verbatim>\<open>alt\<close> attribute of the logo ends at the quote of the
  name, and the rest of the name stands in the tag as an attribute of its own.
\<close>

theorem category_name_unescaped:
  \<open>cat_name wine = ''<b>Wine</b>'' \<and>
   sublist (''" data-category="'' @ ''&lt;b&gt;Wine&lt;/b&gt;'' @ ''">'')
     (renderNavigation [wine] ''all'') \<and>
   (\<exists>html.
      category_click dollars (\<lambda>i. 0) ''<b>Wine</b>'' (loaded_session, Some []) =
        (loaded_session\<lparr>currentCategory := ''<b>Wine</b>''\<rparr>, Some html, None) \<and>
      sublist (''        <p>'' @ (''No products in the "'' @ ''<b>Wine</b>'' @ ''" category.'') @ ''</p>'')
        html) \<and>
   sublist
     (''" alt="'' @ ''x" onerror="alert(1)'' @
      ''" class="logo" onerror="this.style.display='none'; const initialsEl = this.nextElementSibling; if(initialsEl) initialsEl.style.display='flex';">'')
     (renderHeader keep quoted_store)\<close>
proof -
  have 1: "cat_name wine = ''<b>Wine</b>''" by (simp add: wine_def)
  have e: "escapeHtml (cat_name wine) = ''&lt;b&gt;Wine&lt;/b&gt;''"
    by (simp add: wine_def escapeHtml_def escape_char_def)
  have 2: \<open>sublist (''" data-category="'' @ ''&lt;b&gt;Wine&lt;/b&gt;'' @ ''">'')
     (renderNavigation [wine] ''all'')\<close>
    using renderNavigation_button [of wine "''all''"] unfolding e .
  have f: "filteredProducts [pizza, cola] ''<b>Wine</b>'' = []"
    by (simp add: filteredProducts_def pizza_def cola_def)
  have ne: "''<b>Wine</b>'' \<noteq> ''all''" by simp
  from renderProducts_empty_msg [OF f, of dollars "\<lambda>i. 0" "Some demo_store"]
  obtain g where g: "renderProducts dollars (\<lambda>i. 0) (Some demo_store) [pizza, cola] ''<b>Wine</b>'' = Inr g"
    and gs: \<open>sublist
        (''        <p>'' @ (''No products in the "'' @ ''<b>Wine</b>'' @ ''" category.'') @ ''</p>'') g\<close>
    unfolding if_not_P [OF ne] by blast
  have 3: "category_click dollars (\<lambda>i. 0) ''<b>Wine</b>'' (loaded_session, Some []) =
      (loaded_session\<lparr>currentCategory := ''<b>Wine</b>''\<rparr>,
       Some (nl @ ''          '' @ renderPromotions [] @ nl @ ''          '' @ g @ nl @ ''        ''),
       None)"
    using g by (simp add: category_click_def loaded_session_def initial_session_def Let_def)
  have 4: \<open>sublist
        (''        <p>'' @ (''No products in the "'' @ ''<b>Wine</b>'' @ ''" category.'') @ ''</p>'')
        (nl @ ''          '' @ renderPromotions [] @ nl @ ''          '' @ g @ nl @ ''        '')\<close>
    by (intro sub_skip sublist_order.order_trans [OF gs] sublist_append_rightI)
  have l: "st_logo_url quoted_store \<noteq> []" by (simp add: quoted_store_def)
  have n: \<open>escapeHtml (if st_name quoted_store \<noteq> [] then st_name quoted_store else ''Store'') =
      ''x" onerror="alert(1)''\<close>
    by (simp add: quoted_store_def escapeHtml_def escape_char_def)
  note 5 = renderHeader_alt [OF l, of keep, unfolded n]
  show ?thesis using 1 2 3 4 5 by blast
qed

section \<open>Loading the store\<close>




section \<open>Initials\<close>

text \<open>
  Claim C8 at an input where the code breaks it. The three names of the specification
  give \<^verbatim>\<open>PP\<close>, \<^verbatim>\<open>ZA\<close> and \<^verbatim>\<open>ST\<close>. A name of one word after a blank is trimmed for the
  count of its words only: the two characters are taken from the name as given, so
  the blank is the first of them, where the first two letters of the name are \<^verbatim>\<open>ZA\<close>.
\<close>

theorem generateInitials_untrimmed:
  "generateInitials up ''Pizza Palace'' = ''PP'' \<and>
   generateInitials up ''Zagreb'' = ''ZA'' \<and>
   generateInitials up [] = ''ST'' \<and>
   split_ws (trim '' Zagreb'') = [''Zagreb''] \<and>
   generateInitials up '' Zagreb'' = '' Z'' \<and>
   toUpperCase up (substring 0 2 (trim '' Zagreb'')) = ''ZA''"
proof -
  have t: "trim ''Pizza Palace'' = ''Pizza Palace''" "trim ''Zagreb'' = ''Zagreb''"
    "trim '' Zagreb'' = ''Zagreb''"
    by (simp_all add: trim_def is_space_def)
  have w: "split_ws ''Pizza Palace'' = [''Pizza'', ''Palace'']" "split_ws ''Zagreb'' = [''Zagreb'']"
    by (simp_all add: split_ws.simps is_space_def Let_def)
  have u: "toUpperCase up ''PP'' = ''PP''" "toUpperCase up ''Za'' = ''ZA''"
    "toUpperCase up '' Z'' = '' Z''"
    by code_simp+
  show ?thesis
    by (simp add: generateInitials_def t w u substring_def charAt_def Let_def)
qed

end
